theory Spec2Isabelle
  imports Main
begin

section \<open>Employee registration: the intake handler of server.js\<close>

text \<open>
  The repository is one Express handler, \<^verbatim>\<open>app.post('/register')\<close>, in front of a
  Mongoose model \<^verbatim>\<open>Employee\<close>. The handler is embedded as the function \<open>register\<close>;
  the schema declaration \<^verbatim>\<open>employeeSchema\<close> is embedded as the functions that construct,
  validate, look up and insert documents. Exceptions are values of a sum type, the
  collection is explicit state, and every \<^verbatim>\<open>await\<close> is a point where another request
  may run.

  The schema is read as Mongoose 5 and later run it: the setters \<^verbatim>\<open>trim\<close> and \<^verbatim>\<open>lowercase\<close>
  apply to query filters as well as to assigned values, \<^verbatim>\<open>unique: true\<close> declares an
  index of the collection and is no validator, and the server's answer to a broken
  index is error E11000. The indexes are taken to exist.

  Scope of the model. A field of the request body is absent, \<^verbatim>\<open>null\<close> or a string, which
  is what a form post and a JSON body of text fields deliver; numbers, booleans, arrays
  and nested objects of a JSON body are not modelled. A string is a list of 8-bit
  characters read as Latin-1 code units.
\<close>

subsection \<open>JavaScript strings\<close>

text \<open>
  The white space of \<^verbatim>\<open>String.prototype.trim\<close> and of the class \<^verbatim>\<open>\s\<close>, as far as it lies
  in Latin-1: tab, line feed, vertical tab, form feed, carriage return, space and the
  no-break space.
\<close>

definition is_space :: "char \<Rightarrow> bool" where
  "is_space c \<longleftrightarrow>
     c \<in> {CHR 0x09, CHR 0x0A, CHR 0x0B, CHR 0x0C, CHR 0x0D, CHR 0x20, CHR 0xA0}"

definition trim :: "string \<Rightarrow> string" where
  "trim s = rev (dropWhile is_space (rev (dropWhile is_space s)))"

text \<open>
  \<^verbatim>\<open>String.prototype.toLowerCase\<close> on Latin-1: the letters A to Z and the accented capitals
  0xC0 to 0xDE (without the multiplication sign 0xD7) move up by 32, which sets bit 5.
\<close>

definition is_upper :: "char \<Rightarrow> bool" where
  "is_upper c \<longleftrightarrow>
     (let n = (of_char c :: nat)
      in (65 \<le> n \<and> n \<le> 90) \<or> (192 \<le> n \<and> n \<le> 214) \<or> (216 \<le> n \<and> n \<le> 222))"

fun set_bit5 :: "char \<Rightarrow> char" where
  "set_bit5 (Char b0 b1 b2 b3 b4 b5 b6 b7) = Char b0 b1 b2 b3 b4 True b6 b7"

definition lower_char :: "char \<Rightarrow> char" where
  "lower_char c = (if is_upper c then set_bit5 c else c)"

definition toLowerCase :: "string \<Rightarrow> string" where
  "toLowerCase s = map lower_char s"

subsection \<open>Regular expressions\<close>

text \<open>
  The schema's \<^verbatim>\<open>match\<close> rule is the pattern \<^verbatim>\<open>/\S+@\S+\.\S+/\<close>. Patterns are a small
  datatype; \<open>after c r\<close> is the pattern matching what \<open>r\<close> may match after reading \<open>c\<close>, and
  \<open>regexp_test\<close> is \<^verbatim>\<open>RegExp.prototype.test\<close> for a pattern without anchors: some substring
  matches.
\<close>

datatype regexp =
    Never
  | Empty
  | NonSpace
  | Literal char
  | Either regexp regexp
  | Then regexp regexp
  | Many regexp

definition OneOrMore :: "regexp \<Rightarrow> regexp" where
  "OneOrMore r = Then r (Many r)"

fun matches_empty :: "regexp \<Rightarrow> bool" where
  "matches_empty Never = False"
| "matches_empty Empty = True"
| "matches_empty NonSpace = False"
| "matches_empty (Literal a) = False"
| "matches_empty (Either r q) = (matches_empty r \<or> matches_empty q)"
| "matches_empty (Then r q) = (matches_empty r \<and> matches_empty q)"
| "matches_empty (Many r) = True"

fun after :: "char \<Rightarrow> regexp \<Rightarrow> regexp" where
  "after c Never = Never"
| "after c Empty = Never"
| "after c NonSpace = (if is_space c then Never else Empty)"
| "after c (Literal a) = (if c = a then Empty else Never)"
| "after c (Either r q) = Either (after c r) (after c q)"
| "after c (Then r q) =
     (if matches_empty r then Either (Then (after c r) q) (after c q)
      else Then (after c r) q)"
| "after c (Many r) = Then (after c r) (Many r)"

fun matches_prefix :: "regexp \<Rightarrow> string \<Rightarrow> bool" where
  "matches_prefix r [] = matches_empty r"
| "matches_prefix r (c # cs) = (matches_empty r \<or> matches_prefix (after c r) cs)"

fun regexp_test :: "regexp \<Rightarrow> string \<Rightarrow> bool" where
  "regexp_test r [] = matches_empty r"
| "regexp_test r (c # cs) = (matches_prefix r (c # cs) \<or> regexp_test r cs)"

definition email_pattern :: regexp where
  "email_pattern =
     Then (OneOrMore NonSpace)
       (Then (Literal CHR ''@'')
         (Then (OneOrMore NonSpace)
           (Then (Literal CHR ''.'') (OneOrMore NonSpace))))"

subsection \<open>Request bodies, responses and thrown errors\<close>

datatype jsval = JUndefined | JNull | JStr string

text \<open>An object literal or parsed body: a property that is not there reads as \<^verbatim>\<open>undefined\<close>.\<close>

type_synonym object = "string \<rightharpoonup> jsval"

definition field :: "object \<Rightarrow> string \<Rightarrow> jsval" where
  "field obj key = (case obj key of None \<Rightarrow> JUndefined | Some v \<Rightarrow> v)"

text \<open>What \<^verbatim>\<open>!v\<close> negates.\<close>

fun truthy :: "jsval \<Rightarrow> bool" where
  "truthy JUndefined = False"
| "truthy JNull = False"
| "truthy (JStr s) = (s \<noteq> [])"

datatype json =
    JsonNull
  | JsonString string
  | JsonObjectId nat
  | JsonObject "(string \<times> json) list"

record response =
  status :: nat
  payload :: json

text \<open>
  A thrown error as the catch block reads it: \<open>name\<close>, and under \<open>errors\<close> the message of
  each per-path error. \<open>message\<close> and \<open>stack\<close> are what \<^verbatim>\<open>console.error\<close> prints.
\<close>

record js_error =
  name :: string
  message :: string
  stack :: string
  errors :: "(string \<times> string) list"

text \<open>The catch block, lines 132 to 142, and the two responses it sends.\<close>

definition server_error :: response where
  "server_error =
     \<lparr>status = 500,
      payload = JsonObject
        [(''message'',
          JsonString ''Server error during registration. Please try again later.'')]\<rparr>"

definition validation_failed :: "(string \<times> string) list \<Rightarrow> response" where
  "validation_failed errs =
     \<lparr>status = 400,
      payload = JsonObject
        [(''message'', JsonString ''Validation failed. Please check your input.''),
         (''errors'',
          JsonObject (map (\<lambda>(key, m). (key, JsonObject [(''msg'', JsonString m)])) errs))]\<rparr>"

definition on_error :: "js_error \<Rightarrow> response" where
  "on_error error =
     (if name error = ''ValidationError'' then validation_failed (errors error)
      else server_error)"

subsection \<open>The schema: documents of the model Employee\<close>

text \<open>
  A document of the collection. A path that is \<^verbatim>\<open>null\<close> or not set is \<open>None\<close>; dates are
  milliseconds since the epoch; \<open>doc_id\<close> is the path \<^verbatim>\<open>_id\<close>.
\<close>

record employee =
  doc_id :: nat
  fullName :: "string option"
  email :: "string option"
  employeeId :: "string option"
  department :: "string option"
  position :: "string option"
  dateOfJoining :: "int option"
  registrationDate :: "int option"

text \<open>
  What the handler takes from outside the repository. \<open>castDate\<close> is Mongoose's cast of a
  non-empty string to a date (\<open>None\<close>: the cast fails) and \<open>castFailed path value\<close> the
  message of the resulting CastError; \<open>now\<close> is the value of \<^verbatim>\<open>Date.now()\<close> when the
  document is constructed and \<open>new_id\<close> the ObjectId generated for it.
\<close>

record runtime =
  castDate :: "string \<Rightarrow> int option"
  castFailed :: "string \<Rightarrow> string \<Rightarrow> string"

record env =
  now :: int
  new_id :: nat

text \<open>
  A String path: \<^verbatim>\<open>trim\<close> and \<^verbatim>\<open>lowercase\<close> are setters, run on every value assigned to the
  path and on every value of a query filter for it, the one declared last first.
\<close>

fun cast_string :: "(string \<Rightarrow> string) \<Rightarrow> jsval \<Rightarrow> string option" where
  "cast_string setters JUndefined = None"
| "cast_string setters JNull = None"
| "cast_string setters (JStr s) = Some (setters s)"

definition email_setters :: "string \<Rightarrow> string" where
  "email_setters s = trim (toLowerCase s)"

text \<open>A Date path: the empty string casts to \<^verbatim>\<open>null\<close>; \<open>Inl\<close> carries a CastError's message.\<close>

fun cast_date :: "runtime \<Rightarrow> string \<Rightarrow> jsval \<Rightarrow> string + int option" where
  "cast_date R path JUndefined = Inr None"
| "cast_date R path JNull = Inr None"
| "cast_date R path (JStr s) =
     (if s = [] then Inr None
      else (case castDate R s of
              Some t \<Rightarrow> Inr (Some t)
            | None \<Rightarrow> Inl (castFailed R path s)))"

definition cast_value :: "string + int option \<Rightarrow> int option" where
  "cast_value c = (case c of Inl m \<Rightarrow> None | Inr d \<Rightarrow> d)"

definition cast_errors :: "string \<Rightarrow> string + int option \<Rightarrow> (string \<times> string) list" where
  "cast_errors path c = (case c of Inl m \<Rightarrow> [(path, m)] | Inr d \<Rightarrow> [])"

text \<open>
  \<^verbatim>\<open>new Employee(obj)\<close>: every path of the schema is read from \<open>obj\<close> and cast, other
  properties of \<open>obj\<close> are dropped, \<^verbatim>\<open>_id\<close> is generated, and \<^verbatim>\<open>registrationDate\<close> takes
  its default \<^verbatim>\<open>Date.now\<close> when \<open>obj\<close> leaves it undefined. Casts that failed are kept with
  the document until it is validated.
\<close>

definition new_Employee ::
  "runtime \<Rightarrow> env \<Rightarrow> object \<Rightarrow> employee \<times> (string \<times> string) list" where
  "new_Employee R e obj =
     (let joined = cast_date R ''dateOfJoining'' (field obj ''dateOfJoining'');
          registration =
            (case field obj ''registrationDate'' of
               JUndefined \<Rightarrow> Inr (Some (now e))
             | v \<Rightarrow> cast_date R ''registrationDate'' v)
      in (\<lparr>doc_id = new_id e,
           fullName = cast_string trim (field obj ''fullName''),
           email = cast_string email_setters (field obj ''email''),
           employeeId = cast_string trim (field obj ''employeeId''),
           department = cast_string trim (field obj ''department''),
           position = cast_string trim (field obj ''position''),
           dateOfJoining = cast_value joined,
           registrationDate = cast_value registration\<rparr>,
          cast_errors ''dateOfJoining'' joined @ cast_errors ''registrationDate'' registration))"

text \<open>
  The validators of one String path: \<^verbatim>\<open>required\<close> fails on \<^verbatim>\<open>null\<close>, on a path not set and on
  the empty string; \<^verbatim>\<open>match\<close> is asked only about a non-empty string. The first validator
  that fails gives the path's error.
\<close>

definition string_path_error ::
  "string \<Rightarrow> (regexp \<times> string) option \<Rightarrow> string option \<Rightarrow> string option" where
  "string_path_error required match v =
     (case v of
        None \<Rightarrow> Some required
      | Some s \<Rightarrow>
          if s = [] then Some required
          else (case match of
                  None \<Rightarrow> None
                | Some (pattern, invalid) \<Rightarrow>
                    if regexp_test pattern s then None else Some invalid))"

definition date_path_error :: "string \<Rightarrow> int option \<Rightarrow> string option" where
  "date_path_error required v = (case v of None \<Rightarrow> Some required | Some t \<Rightarrow> None)"

text \<open>
  The validators' entry for one path in the error map of a ValidationError. A path whose
  cast failed has its CastError in the map already and its validators are not run.
\<close>

definition path_errors ::
  "(string \<times> string) list \<Rightarrow> string \<Rightarrow> string option \<Rightarrow> (string \<times> string) list" where
  "path_errors casts path verdict =
     (case map_of casts path of
        Some m \<Rightarrow> []
      | None \<Rightarrow> (case verdict of None \<Rightarrow> [] | Some m \<Rightarrow> [(path, m)]))"

text \<open>The messages of the \<^verbatim>\<open>required\<close> rules, lines 37 to 66.\<close>

definition required_message :: "string \<Rightarrow> string" where
  "required_message path =
     (if path = ''fullName'' then ''Full name is required.''
      else if path = ''email'' then ''Email is required.''
      else if path = ''employeeId'' then ''Employee ID is required.''
      else if path = ''department'' then ''Department is required.''
      else if path = ''position'' then ''Position is required.''
      else if path = ''dateOfJoining'' then ''Date of joining is required.''
      else [])"

text \<open>
  \<^verbatim>\<open>employeeSchema\<close>, lines 34 to 72, as the error map of \<^verbatim>\<open>doc.validate()\<close>: the failed
  casts, entered when the document was constructed, come first, then the validators'
  entries in the order of the schema. \<^verbatim>\<open>registrationDate\<close> has no validator.
\<close>

definition validate :: "employee \<times> (string \<times> string) list \<Rightarrow> (string \<times> string) list" where
  "validate doc =
     (let d = fst doc; casts = snd doc
      in casts
       @ path_errors casts ''fullName''
           (string_path_error (required_message ''fullName'') None (fullName d))
       @ path_errors casts ''email''
           (string_path_error (required_message ''email'')
              (Some (email_pattern, ''Please enter a valid email address.'')) (email d))
       @ path_errors casts ''employeeId''
           (string_path_error (required_message ''employeeId'') None (employeeId d))
       @ path_errors casts ''department''
           (string_path_error (required_message ''department'') None (department d))
       @ path_errors casts ''position''
           (string_path_error (required_message ''position'') None (position d))
       @ path_errors casts ''dateOfJoining''
           (date_path_error (required_message ''dateOfJoining'') (dateOfJoining d)))"

definition ValidationError :: "(string \<times> string) list \<Rightarrow> js_error" where
  "ValidationError errs =
     \<lparr>name = ''ValidationError'',
      message = ''Employee validation failed'',
      stack = ''ValidationError: Employee validation failed'',
      errors = errs\<rparr>"

subsection \<open>The collection\<close>

text \<open>
  The store is the list of documents in insertion order. \<open>failing\<close> is the error the driver
  raises while the server cannot be reached, and \<open>calls\<close> records every operation sent to
  the collection, so that a request's store accesses can be counted.
\<close>

datatype store_call =
    FindOne string "string option"
  | InsertOne employee

record store =
  docs :: "employee list"
  failing :: "js_error option"
  calls :: "store_call list"

definition findOne_email :: "jsval \<Rightarrow> store \<Rightarrow> (js_error + employee option) \<times> store" where
  "findOne_email v s =
     (let q = cast_string email_setters v;
          s' = s\<lparr>calls := calls s @ [FindOne ''email'' q]\<rparr>
      in case failing s of
           Some err \<Rightarrow> (Inl err, s')
         | None \<Rightarrow> (Inr (find (\<lambda>d. email d = q) (docs s)), s'))"

definition findOne_employeeId :: "jsval \<Rightarrow> store \<Rightarrow> (js_error + employee option) \<times> store" where
  "findOne_employeeId v s =
     (let q = cast_string trim v;
          s' = s\<lparr>calls := calls s @ [FindOne ''employeeId'' q]\<rparr>
      in case failing s of
           Some err \<Rightarrow> (Inl err, s')
         | None \<Rightarrow> (Inr (find (\<lambda>d. employeeId d = q) (docs s)), s'))"

text \<open>
  The server's answer to an insert that breaks a unique index (\<^verbatim>\<open>_id\<close>, and the two
  indexes that \<^verbatim>\<open>unique: true\<close> declares): error E11000, which is not a ValidationError.
\<close>

definition duplicate_key :: "string \<Rightarrow> js_error" where
  "duplicate_key index =
     \<lparr>name = ''MongoError'',
      message = ''E11000 duplicate key error collection: employeeDB.employees index: '' @ index,
      stack = ''MongoError: E11000 duplicate key error collection: employeeDB.employees index: ''
                @ index,
      errors = []\<rparr>"

definition insertOne :: "employee \<Rightarrow> store \<Rightarrow> (js_error + employee) \<times> store" where
  "insertOne d s =
     (let s' = s\<lparr>calls := calls s @ [InsertOne d]\<rparr>
      in case failing s of
           Some err \<Rightarrow> (Inl err, s')
         | None \<Rightarrow>
             if \<exists>x \<in> set (docs s). doc_id x = doc_id d then (Inl (duplicate_key ''_id_''), s')
             else if \<exists>x \<in> set (docs s). email x = email d
               then (Inl (duplicate_key ''email_1''), s')
             else if \<exists>x \<in> set (docs s). employeeId x = employeeId d
               then (Inl (duplicate_key ''employeeId_1''), s')
             else (Inr d, s'\<lparr>docs := docs s @ [d]\<rparr>))"

text \<open>\<^verbatim>\<open>doc.save()\<close>: validation runs first, in the process; only a valid document is sent.\<close>

definition save ::
  "employee \<times> (string \<times> string) list \<Rightarrow> store \<Rightarrow> (js_error + employee) \<times> store" where
  "save doc s =
     (case validate doc of
        [] \<Rightarrow> insertOne (fst doc) s
      | err # errs \<Rightarrow> (Inl (ValidationError (err # errs)), s))"

subsection \<open>The handler\<close>

definition json_string :: "string option \<Rightarrow> json" where
  "json_string v = (case v of None \<Rightarrow> JsonNull | Some s \<Rightarrow> JsonString s)"

definition all_fields_required :: response where
  "all_fields_required =
     \<lparr>status = 400, payload = JsonObject [(''message'', JsonString ''All fields are required.'')]\<rparr>"

definition email_in_use :: response where
  "email_in_use =
     \<lparr>status = 400,
      payload = JsonObject
        [(''message'', JsonString ''An employee with this email already exists.''),
         (''errors'',
          JsonObject [(''email'', JsonObject [(''msg'', JsonString ''Email already in use.'')])])]\<rparr>"

definition employeeId_in_use :: response where
  "employeeId_in_use =
     \<lparr>status = 400,
      payload = JsonObject
        [(''message'', JsonString ''An employee with this Employee ID already exists.''),
         (''errors'',
          JsonObject
            [(''employeeId'', JsonObject [(''msg'', JsonString ''Employee ID already in use.'')])])]\<rparr>"

definition registered :: "employee \<Rightarrow> response" where
  "registered savedEmployee =
     \<lparr>status = 201,
      payload = JsonObject
        [(''message'', JsonString ''Employee registered successfully!''),
         (''employee'',
          JsonObject
            [(''id'', JsonObjectId (doc_id savedEmployee)),
             (''fullName'', json_string (fullName savedEmployee)),
             (''email'', json_string (email savedEmployee)),
             (''employeeId'', json_string (employeeId savedEmployee))])]\<rparr>"

text \<open>Line 95: the presence check.\<close>

definition all_present :: "object \<Rightarrow> bool" where
  "all_present body \<longleftrightarrow>
     \<not> (\<not> truthy (field body ''fullName'') \<or> \<not> truthy (field body ''email'')
        \<or> \<not> truthy (field body ''employeeId'') \<or> \<not> truthy (field body ''department'')
        \<or> \<not> truthy (field body ''position'') \<or> \<not> truthy (field body ''dateOfJoining''))"

text \<open>Lines 110 to 117: the object literal handed to \<^verbatim>\<open>new Employee\<close>.\<close>

definition submitted :: "object \<Rightarrow> object" where
  "submitted body =
     [''fullName'' \<mapsto> field body ''fullName'',
      ''email'' \<mapsto> field body ''email'',
      ''employeeId'' \<mapsto> field body ''employeeId'',
      ''department'' \<mapsto> field body ''department'',
      ''position'' \<mapsto> field body ''position'',
      ''dateOfJoining'' \<mapsto> field body ''dateOfJoining'']"

text \<open>
  Lines 90 to 143, run without another request in between: the response sent and the
  store afterwards.
\<close>

definition register :: "runtime \<Rightarrow> env \<Rightarrow> object \<Rightarrow> store \<Rightarrow> response \<times> store" where
  "register R e body s =
     (if \<not> all_present body then (all_fields_required, s)
      else
        case findOne_email (field body ''email'') s of
          (Inl error, s1) \<Rightarrow> (on_error error, s1)
        | (Inr (Some existingEmployeeByEmail), s1) \<Rightarrow> (email_in_use, s1)
        | (Inr None, s1) \<Rightarrow>
            (case findOne_employeeId (field body ''employeeId'') s1 of
               (Inl error, s2) \<Rightarrow> (on_error error, s2)
             | (Inr (Some existingEmployeeById), s2) \<Rightarrow> (employeeId_in_use, s2)
             | (Inr None, s2) \<Rightarrow>
                 (case save (new_Employee R e (submitted body)) s2 of
                    (Inl error, s3) \<Rightarrow> (on_error error, s3)
                  | (Inr savedEmployee, s3) \<Rightarrow> (registered savedEmployee, s3))))"

subsection \<open>The route behind the body parsers\<close>

text \<open>
  Lines 12 and 14 put the JSON and the form parser in front of the route, and no error
  middleware is registered. A body the parsers reject never reaches the handler: the
  parser passes an error with an HTTP status on, and Express's default error handler
  answers it with an error page. The page shows the status text when \<^verbatim>\<open>NODE_ENV\<close> is
  \<^verbatim>\<open>production\<close> and the stack of the error otherwise; server.js does not set
  \<^verbatim>\<open>NODE_ENV\<close>.
\<close>

record rejected_body =
  http_status :: nat
  thrown :: js_error

record deployment =
  production :: bool
  statusMessage :: "nat \<Rightarrow> string"

datatype body_sent =
    Json json
  | ErrorPage string

record http_response =
  code :: nat
  sent :: body_sent

definition default_error_handler :: "deployment \<Rightarrow> rejected_body \<Rightarrow> http_response" where
  "default_error_handler D f =
     (let st = (if 400 \<le> http_status f \<and> http_status f < 600 then http_status f else 500)
      in \<lparr>code = st,
          sent = ErrorPage
            (if production D then statusMessage D st
             else if stack (thrown f) = [] then name (thrown f) @ '': '' @ message (thrown f)
             else stack (thrown f))\<rparr>)"

text \<open>
  \<^verbatim>\<open>POST /register\<close> as the client sees it. \<open>parsed\<close> is what lines 12 and 14 deliver: the
  error of a rejected body, or \<^verbatim>\<open>req.body\<close>.
\<close>

definition post_register ::
  "deployment \<Rightarrow> runtime \<Rightarrow> env \<Rightarrow> rejected_body + object \<Rightarrow> store
     \<Rightarrow> http_response \<times> store" where
  "post_register D R e parsed s =
     (case parsed of
        Inl f \<Rightarrow> (default_error_handler D f, s)
      | Inr body \<Rightarrow>
          (case register R e body s of
             (r, s') \<Rightarrow> (\<lparr>code = status r, sent = Json (payload r)\<rparr>, s')))"

subsection \<open>Requests in flight\<close>

text \<open>
  The handler waits three times, at the two \<^verbatim>\<open>findOne\<close> calls and at \<^verbatim>\<open>save\<close>, and other
  requests run while it waits. A task is a request between two waits; \<open>start\<close> is the
  code before the first wait and \<open>resume\<close> the code from one wait to the next.
\<close>

datatype task =
    AwaitFindEmail object
  | AwaitFindEmployeeId object
  | AwaitSave object
  | Responded response

definition start :: "object \<Rightarrow> task" where
  "start body = (if \<not> all_present body then Responded all_fields_required else AwaitFindEmail body)"

fun resume :: "runtime \<Rightarrow> env \<Rightarrow> task \<Rightarrow> store \<Rightarrow> task \<times> store" where
  "resume R e (AwaitFindEmail body) s =
     (case findOne_email (field body ''email'') s of
        (Inl error, s1) \<Rightarrow> (Responded (on_error error), s1)
      | (Inr (Some existingEmployeeByEmail), s1) \<Rightarrow> (Responded email_in_use, s1)
      | (Inr None, s1) \<Rightarrow> (AwaitFindEmployeeId body, s1))"
| "resume R e (AwaitFindEmployeeId body) s =
     (case findOne_employeeId (field body ''employeeId'') s of
        (Inl error, s2) \<Rightarrow> (Responded (on_error error), s2)
      | (Inr (Some existingEmployeeById), s2) \<Rightarrow> (Responded employeeId_in_use, s2)
      | (Inr None, s2) \<Rightarrow> (AwaitSave body, s2))"
| "resume R e (AwaitSave body) s =
     (case save (new_Employee R e (submitted body)) s of
        (Inl error, s3) \<Rightarrow> (Responded (on_error error), s3)
      | (Inr savedEmployee, s3) \<Rightarrow> (Responded (registered savedEmployee), s3))"
| "resume R e (Responded r) s = (Responded r, s)"

text \<open>
  The server: the requests in flight, each with its own clock reading and ObjectId, and
  the store. An event resumes one request, or takes the store down, or brings it back.
\<close>

datatype event =
    Resume nat
  | Outage js_error
  | Recovery

type_synonym server = "(env \<times> task) list \<times> store"

fun occur :: "runtime \<Rightarrow> event \<Rightarrow> server \<Rightarrow> server" where
  "occur R (Resume i) (ts, s) =
     (if i < length ts then
        (case resume R (fst (ts ! i)) (snd (ts ! i)) s of
           (t', s') \<Rightarrow> (ts[i := (fst (ts ! i), t')], s'))
      else (ts, s))"
| "occur R (Outage err) (ts, s) = (ts, s\<lparr>failing := Some err\<rparr>)"
| "occur R Recovery (ts, s) = (ts, s\<lparr>failing := None\<rparr>)"

fun run :: "runtime \<Rightarrow> event list \<Rightarrow> server \<Rightarrow> server" where
  "run R [] sv = sv"
| "run R (ev # evs) sv = run R evs (occur R ev sv)"

definition arrive :: "(env \<times> object) list \<Rightarrow> (env \<times> task) list" where
  "arrive reqs = map (\<lambda>(e, body). (e, start body)) reqs"

definition empty_store :: store where
  "empty_store = \<lparr>docs = [], failing = None, calls = []\<rparr>"

subsection \<open>The uniqueness invariant\<close>

text \<open>
  What the three unique indexes keep: no two documents with the same \<^verbatim>\<open>_id\<close>, the same
  stored email or the same stored employeeId.
\<close>

definition unique_indexes :: "employee list \<Rightarrow> bool" where
  "unique_indexes ds \<longleftrightarrow>
     distinct (map doc_id ds) \<and> distinct (map email ds) \<and> distinct (map employeeId ds)"

text \<open>A document as the schema's setters leave it.\<close>

definition normalised :: "employee \<Rightarrow> bool" where
  "normalised d \<longleftrightarrow>
     email d = map_option email_setters (email d)
     \<and> employeeId d = map_option trim (employeeId d)"

text \<open>
  The invariant as the specification words it: emails differ when compared without
  case after trimming, employeeIds differ after trimming.
\<close>

definition no_shared_keys :: "employee list \<Rightarrow> bool" where
  "no_shared_keys ds \<longleftrightarrow>
     distinct (map (\<lambda>d. map_option (\<lambda>a. toLowerCase (trim a)) (email d)) ds)
     \<and> distinct (map (\<lambda>d. map_option trim (employeeId d)) ds)"

text \<open>The invariant of the collection that every step of every request keeps.\<close>

definition store_inv :: "store \<Rightarrow> bool" where
  "store_inv s \<longleftrightarrow> (\<forall>d \<in> set (docs s). normalised d) \<and> unique_indexes (docs s)"

subsection \<open>Example inputs\<close>

text \<open>
  A runtime that reads one date, the submission of the specification's scenario A, and
  the store after that submission was accepted.
\<close>

definition example_runtime :: runtime where
  "example_runtime =
     \<lparr>castDate = (\<lambda>s. if s = ''2024-01-01'' then Some 1704067200000 else None),
      castFailed = (\<lambda>path v.
        ''Cast to date failed for value '' @ [CHR 0x22] @ v @ [CHR 0x22]
          @ '' at path '' @ [CHR 0x22] @ path @ [CHR 0x22])\<rparr>"

definition jane :: object where
  "jane =
     [''fullName'' \<mapsto> JStr ''Jane Doe'',
      ''email'' \<mapsto> JStr ''jane@x.com'',
      ''employeeId'' \<mapsto> JStr ''E1'',
      ''department'' \<mapsto> JStr ''Eng'',
      ''position'' \<mapsto> JStr ''Dev'',
      ''dateOfJoining'' \<mapsto> JStr ''2024-01-01'']"

definition jane_doc :: employee where
  "jane_doc =
     \<lparr>doc_id = 1,
      fullName = Some ''Jane Doe'',
      email = Some ''jane@x.com'',
      employeeId = Some ''E1'',
      department = Some ''Eng'',
      position = Some ''Dev'',
      dateOfJoining = Some 1704067200000,
      registrationDate = Some 1730000000000\<rparr>"

definition store_with_jane :: store where
  "store_with_jane = \<lparr>docs = [jane_doc], failing = None, calls = []\<rparr>"

definition development :: deployment where
  "development =
     \<lparr>production = False,
      statusMessage = (\<lambda>st. if st = 400 then ''Bad Request'' else ''Error'')\<rparr>"

definition malformed_json :: rejected_body where
  "malformed_json =
     \<lparr>http_status = 400,
      thrown =
        \<lparr>name = ''SyntaxError'',
         message = ''Unexpected token } in JSON at position 1'',
         stack = ''SyntaxError: Unexpected token } in JSON at position 1''
           @ '' at JSON.parse (<anonymous>)''
           @ '' at parse (/srv/app/node_modules/body-parser/lib/types/json.js:89:19)'',
         errors = []\<rparr>\<rparr>"

definition connection_refused :: js_error where
  "connection_refused =
     \<lparr>name = ''MongoNetworkError'',
      message = ''connect ECONNREFUSED 127.0.0.1:27017'',
      stack = ''MongoNetworkError: connect ECONNREFUSED 127.0.0.1:27017'',
      errors = []\<rparr>"

section \<open>Properties\<close>

subsection \<open>Trimming and lower case\<close>

lemma is_space_lower_char: "is_space (lower_char c) = is_space c"
  by (cases c) (auto simp add: is_space_def lower_char_def is_upper_def Let_def)

lemma lower_char_idem: "lower_char (lower_char c) = lower_char c"
  by (cases c) (auto simp add: lower_char_def is_upper_def Let_def)

lemma toLowerCase_idem: "toLowerCase (toLowerCase s) = toLowerCase s"
  by (simp add: toLowerCase_def lower_char_idem)

lemma dropWhile_toLowerCase:
  "dropWhile is_space (map lower_char s) = map lower_char (dropWhile is_space s)"
  by (induction s) (simp_all add: is_space_lower_char)

lemma trim_toLowerCase: "trim (toLowerCase s) = toLowerCase (trim s)"
  by (simp add: trim_def toLowerCase_def rev_map dropWhile_toLowerCase)

lemma dropWhile_rev_dropWhile:
  "dropWhile P (rev (dropWhile P (rev (dropWhile P s)))) = rev (dropWhile P (rev (dropWhile P s)))"
proof (cases "dropWhile P s = []")
  case True
  show ?thesis unfolding True by simp
next
  case False
  then obtain x xs where s: "dropWhile P s = x # xs"
    by (cases "dropWhile P s") auto
  then have nx: "\<not> P x"
    by (metis hd_dropWhile list.sel(1) False)
  have "x \<in> set (rev (x # xs))" by simp
  then have ne: "dropWhile P (rev (x # xs)) \<noteq> []"
    using nx by (metis dropWhile_eq_Nil_conv)
  have "\<exists>ys. rev (x # xs) = ys @ [x]" by simp
  then obtain ys where ys: "rev (x # xs) = ys @ [x]" by blast
  have "\<exists>zs. dropWhile P (ys @ [x]) = zs @ [x]"
  proof (induction ys)
    case Nil
    then show ?case using nx by simp
  next
    case (Cons a ys)
    then show ?case by (cases "P a") auto
  qed
  then obtain zs where zs: "dropWhile P (rev (x # xs)) = zs @ [x]"
    using ys by auto
  then have "rev (dropWhile P (rev (x # xs))) = x # rev zs" by simp
  then show ?thesis using s nx by simp
qed

lemma dropWhile_trim: "dropWhile is_space (trim s) = trim s"
  unfolding trim_def by (rule dropWhile_rev_dropWhile)

lemma trim_idem: "trim (trim s) = trim s"
proof -
  have "trim (trim s) = rev (dropWhile is_space (rev (trim s)))"
    by (simp add: trim_def [of "trim s"] dropWhile_trim)
  also have "rev (trim s) = dropWhile is_space (rev (dropWhile is_space s))"
    by (simp add: trim_def)
  also have "rev (dropWhile is_space (dropWhile is_space (rev (dropWhile is_space s)))) = trim s"
    by (simp add: trim_def)
  finally show ?thesis .
qed

lemma email_setters_idem: "email_setters (email_setters s) = email_setters s"
  by (simp add: email_setters_def trim_toLowerCase toLowerCase_idem trim_idem)

lemma email_setters_alt: "toLowerCase (trim s) = email_setters s"
  by (simp add: email_setters_def trim_toLowerCase)

subsection \<open>What the store operations do to the collection\<close>

lemma new_Employee_normalised: "normalised (fst (new_Employee R e obj))"
proof -
  have a: "cast_string email_setters v = map_option email_setters (cast_string email_setters v)" for v
    by (cases v) (simp_all add: email_setters_idem)
  have b: "cast_string trim v = map_option trim (cast_string trim v)" for v
    by (cases v) (simp_all add: trim_idem)
  show ?thesis
    using a [of "field obj ''email''"] b [of "field obj ''employeeId''"]
    by (simp add: normalised_def new_Employee_def Let_def)
qed

lemma insertOne_docs:
  "docs (snd (insertOne d s)) = docs s
   \<or> (docs (snd (insertOne d s)) = docs s @ [d]
      \<and> doc_id d \<notin> doc_id ` set (docs s)
      \<and> email d \<notin> email ` set (docs s)
      \<and> employeeId d \<notin> employeeId ` set (docs s))"
  by (auto simp add: insertOne_def Let_def split: option.splits)

lemma save_docs:
  "docs (snd (save doc s)) = docs s
   \<or> (docs (snd (save doc s)) = docs s @ [fst doc]
      \<and> doc_id (fst doc) \<notin> doc_id ` set (docs s)
      \<and> email (fst doc) \<notin> email ` set (docs s)
      \<and> employeeId (fst doc) \<notin> employeeId ` set (docs s))"
proof (cases "validate doc")
  case Nil
  then show ?thesis using insertOne_docs [of "fst doc" s] by (simp add: save_def)
next
  case (Cons a list)
  then show ?thesis by (simp add: save_def)
qed

lemma findOne_email_docs: "docs (snd (findOne_email v s)) = docs s"
  by (simp add: findOne_email_def Let_def split: option.splits)

lemma findOne_employeeId_docs: "docs (snd (findOne_employeeId v s)) = docs s"
  by (simp add: findOne_employeeId_def Let_def split: option.splits)

lemma resume_docs:
  "docs (snd (resume R e t s)) = docs s
   \<or> (\<exists>d. docs (snd (resume R e t s)) = docs s @ [d] \<and> normalised d
      \<and> doc_id d \<notin> doc_id ` set (docs s)
      \<and> email d \<notin> email ` set (docs s)
      \<and> employeeId d \<notin> employeeId ` set (docs s))"
proof (cases t)
  case (AwaitFindEmail body)
  then show ?thesis
    using findOne_email_docs [of "field body ''email''" s]
    by (auto split: prod.splits sum.splits option.splits)
next
  case (AwaitFindEmployeeId body)
  then show ?thesis
    using findOne_employeeId_docs [of "field body ''employeeId''" s]
    by (auto split: prod.splits sum.splits option.splits)
next
  case (AwaitSave body)
  have "snd (resume R e (AwaitSave body) s) = snd (save (new_Employee R e (submitted body)) s)"
    by (simp split: prod.splits sum.splits)
  then show ?thesis
    using AwaitSave save_docs [of "new_Employee R e (submitted body)" s]
      new_Employee_normalised [of R e "submitted body"]
    by auto
next
  case (Responded r)
  then show ?thesis by simp
qed

lemma resume_store_inv: "store_inv s \<Longrightarrow> store_inv (snd (resume R e t s))"
  using resume_docs [of R e t s]
  by (auto simp add: store_inv_def unique_indexes_def)

lemma occur_store_inv: "store_inv (snd sv) \<Longrightarrow> store_inv (snd (occur R ev sv))"
proof (cases sv)
  case (Pair ts s)
  assume inv: "store_inv (snd sv)"
  show ?thesis
  proof (cases ev)
    case (Resume i)
    then show ?thesis
      using Pair inv resume_store_inv [of s R "fst (ts ! i)" "snd (ts ! i)"]
      by (auto split: prod.splits)
  next
    case (Outage err)
    then show ?thesis using Pair inv by (simp add: store_inv_def)
  next
    case Recovery
    then show ?thesis using Pair inv by (simp add: store_inv_def)
  qed
qed

lemma run_store_inv: "store_inv (snd sv) \<Longrightarrow> store_inv (snd (run R evs sv))"
  by (induction evs arbitrary: sv) (simp_all add: occur_store_inv)

lemma store_inv_no_shared_keys:
  assumes "store_inv s"
  shows "no_shared_keys (docs s)"
proof -
  have n: "\<forall>d \<in> set (docs s). normalised d" and u: "unique_indexes (docs s)"
    using assms by (simp_all add: store_inv_def)
  have a: "map (\<lambda>d. map_option (\<lambda>a. toLowerCase (trim a)) (email d)) (docs s) = map email (docs s)"
    using n by (simp add: normalised_def email_setters_alt)
  have b: "map (\<lambda>d. map_option trim (employeeId d)) (docs s) = map employeeId (docs s)"
    using n by (simp add: normalised_def)
  from u have "distinct (map email (docs s)) \<and> distinct (map employeeId (docs s))"
    by (simp add: unique_indexes_def)
  then show ?thesis
    unfolding no_shared_keys_def a b .
qed

subsection \<open>Unfolding the handler\<close>

lemmas example_simps =
  jane_def jane_doc_def store_with_jane_def example_runtime_def connection_refused_def
  empty_store_def development_def malformed_json_def

lemmas handler_simps =
  field_def all_present_def submitted_def start_def arrive_def
  findOne_email_def findOne_employeeId_def save_def insertOne_def
  new_Employee_def validate_def path_errors_def string_path_error_def date_path_error_def
  required_message_def cast_value_def cast_errors_def
  email_setters_def trim_def toLowerCase_def lower_char_def is_upper_def is_space_def
  email_pattern_def OneOrMore_def
  on_error_def duplicate_key_def ValidationError_def
  Let_def

lemma all_present_iff:
  "all_present body \<longleftrightarrow>
     truthy (field body ''fullName'') \<and> truthy (field body ''email'')
     \<and> truthy (field body ''employeeId'') \<and> truthy (field body ''department'')
     \<and> truthy (field body ''position'') \<and> truthy (field body ''dateOfJoining'')"
  by (auto simp add: all_present_def)

lemma not_truthy_iff: "\<not> truthy v \<longleftrightarrow> v = JUndefined \<or> v = JNull \<or> v = JStr []"
  by (cases v) simp_all

lemma findOne_email_found:
  assumes "failing s = None" and "d \<in> set (docs s)" and "email d = cast_string email_setters v"
  shows "\<exists>x. findOne_email v s = (Inr (Some x), s\<lparr>calls := calls s @ [FindOne ''email'' (email d)]\<rparr>)"
proof -
  have "find (\<lambda>x. email x = cast_string email_setters v) (docs s) \<noteq> None"
    using assms(2,3) by (auto simp add: find_None_iff)
  then show ?thesis
    using assms(1,3) by (auto simp add: findOne_email_def Let_def)
qed

lemma findOne_email_none:
  assumes "failing s = None" and "\<forall>x \<in> set (docs s). email x \<noteq> cast_string email_setters v"
  shows "findOne_email v s
           = (Inr None, s\<lparr>calls := calls s @ [FindOne ''email'' (cast_string email_setters v)]\<rparr>)"
proof -
  have "find (\<lambda>x. email x = cast_string email_setters v) (docs s) = None"
    using assms(2) by (simp add: find_None_iff)
  then show ?thesis
    using assms(1) by (simp add: findOne_email_def Let_def)
qed

lemma findOne_employeeId_found:
  assumes "failing s = None" and "d \<in> set (docs s)" and "employeeId d = cast_string trim v"
  shows "\<exists>x. findOne_employeeId v s
           = (Inr (Some x), s\<lparr>calls := calls s @ [FindOne ''employeeId'' (employeeId d)]\<rparr>)"
proof -
  have "find (\<lambda>x. employeeId x = cast_string trim v) (docs s) \<noteq> None"
    using assms(2,3) by (auto simp add: find_None_iff)
  then show ?thesis
    using assms(1,3) by (auto simp add: findOne_employeeId_def Let_def)
qed

lemma findOne_employeeId_none:
  assumes "failing s = None" and "\<forall>x \<in> set (docs s). employeeId x \<noteq> cast_string trim v"
  shows "findOne_employeeId v s
           = (Inr None, s\<lparr>calls := calls s @ [FindOne ''employeeId'' (cast_string trim v)]\<rparr>)"
proof -
  have "find (\<lambda>x. employeeId x = cast_string trim v) (docs s) = None"
    using assms(2) by (simp add: find_None_iff)
  then show ?thesis
    using assms(1) by (simp add: findOne_employeeId_def Let_def)
qed

subsection \<open>The paths through the handler\<close>

lemma findOne_email_result: "findOne_email v s = (r, s') \<Longrightarrow> docs s' = docs s"
  using findOne_email_docs [of v s] by simp

lemma findOne_employeeId_result: "findOne_employeeId v s = (r, s') \<Longrightarrow> docs s' = docs s"
  using findOne_employeeId_docs [of v s] by simp

lemma insertOne_Inr:
  "insertOne d s = (Inr x, s') \<Longrightarrow> x = d \<and> docs s' = docs s @ [d] \<and> failing s = None"
  by (auto simp add: insertOne_def Let_def split: option.splits if_splits)

lemma insertOne_Inl: "insertOne d s = (Inl err, s') \<Longrightarrow> docs s' = docs s"
  by (auto simp add: insertOne_def Let_def split: option.splits if_splits)

lemma save_Inr:
  assumes "save doc s = (Inr d, s')"
  shows "validate doc = [] \<and> d = fst doc \<and> docs s' = docs s @ [d] \<and> failing s = None"
proof (cases "validate doc")
  case Nil
  then have "insertOne (fst doc) s = (Inr d, s')"
    using assms by (simp add: save_def)
  then show ?thesis
    using Nil insertOne_Inr by blast
next
  case (Cons a list)
  then show ?thesis using assms by (simp add: save_def)
qed

lemma save_Inl: "save doc s = (Inl err, s') \<Longrightarrow> docs s' = docs s"
  by (cases "validate doc") (auto simp add: save_def dest: insertOne_Inl)

lemma path_errors_Nil: "path_errors [] path verdict = [] \<Longrightarrow> verdict = None"
  by (simp add: path_errors_def split: option.splits)

lemma string_path_error_None:
  "string_path_error required match v = None \<Longrightarrow> \<exists>a. v = Some a \<and> a \<noteq> []"
  by (cases v) (simp_all add: string_path_error_def split: if_splits)

lemma validate_Nil:
  assumes "validate doc = []"
  shows "\<exists>fn em ei. fullName (fst doc) = Some fn \<and> email (fst doc) = Some em
           \<and> employeeId (fst doc) = Some ei"
proof -
  have none: "snd doc = []"
    using assms by (simp add: validate_def Let_def)
  have parts:
    "path_errors (snd doc) ''fullName''
       (string_path_error (required_message ''fullName'') None (fullName (fst doc))) = []"
    "path_errors (snd doc) ''email''
       (string_path_error (required_message ''email'')
          (Some (email_pattern, ''Please enter a valid email address.'')) (email (fst doc))) = []"
    "path_errors (snd doc) ''employeeId''
       (string_path_error (required_message ''employeeId'') None (employeeId (fst doc))) = []"
    using assms unfolding validate_def Let_def append_is_Nil_conv by blast+
  have "\<exists>a. fullName (fst doc) = Some a \<and> a \<noteq> []"
    by (rule string_path_error_None [OF path_errors_Nil [OF parts(1) [unfolded none]]])
  moreover have "\<exists>a. email (fst doc) = Some a \<and> a \<noteq> []"
    by (rule string_path_error_None [OF path_errors_Nil [OF parts(2) [unfolded none]]])
  moreover have "\<exists>a. employeeId (fst doc) = Some a \<and> a \<noteq> []"
    by (rule string_path_error_None [OF path_errors_Nil [OF parts(3) [unfolded none]]])
  ultimately show ?thesis by blast
qed

lemma status_on_error: "status (on_error err) = 400 \<or> status (on_error err) = 500"
  by (simp add: on_error_def validation_failed_def server_error_def)

lemma status_on_error_500: "status (on_error err) = 500 \<Longrightarrow> on_error err = server_error"
  by (simp add: on_error_def validation_failed_def split: if_splits)

lemma register_cases:
  obtains
    (missing) "\<not> all_present body" "register R e body s = (all_fields_required, s)"
  | (thrown) err s' where "register R e body s = (on_error err, s')" "docs s' = docs s"
  | (email_taken) s' where "register R e body s = (email_in_use, s')" "docs s' = docs s"
  | (employeeId_taken) s' where "register R e body s = (employeeId_in_use, s')" "docs s' = docs s"
  | (saved) d s2 s3 where "all_present body" "docs s2 = docs s"
      "save (new_Employee R e (submitted body)) s2 = (Inr d, s3)"
      "register R e body s = (registered d, s3)"
proof (cases "all_present body")
  case False
  then show ?thesis using missing by (simp add: register_def)
next
  case True
  obtain r1 s1 where one: "findOne_email (field body ''email'') s = (r1, s1)"
    by (cases "findOne_email (field body ''email'') s")
  have d1: "docs s1 = docs s" using one by (rule findOne_email_result)
  show ?thesis
  proof (cases r1)
    case (Inl err)
    then show ?thesis using True one d1 thrown by (simp add: register_def)
  next
    case (Inr found)
    show ?thesis
    proof (cases found)
      case (Some x)
      then show ?thesis using True one d1 Inr email_taken by (simp add: register_def)
    next
      case None
      obtain r2 s2 where two: "findOne_employeeId (field body ''employeeId'') s1 = (r2, s2)"
        by (cases "findOne_employeeId (field body ''employeeId'') s1")
      have d2: "docs s2 = docs s" using two d1 findOne_employeeId_result by metis
      show ?thesis
      proof (cases r2)
        case (Inl err)
        then show ?thesis
          using True one Inr None two d2 thrown [of err s2] by (simp add: register_def)
      next
        case found2: (Inr found')
        show ?thesis
        proof (cases found')
          case (Some x)
          then show ?thesis
            using True one Inr None two found2 d2 employeeId_taken [of s2]
            by (simp add: register_def)
        next
          case none2: None
          obtain r3 s3 where three: "save (new_Employee R e (submitted body)) s2 = (r3, s3)"
            by (cases "save (new_Employee R e (submitted body)) s2")
          show ?thesis
          proof (cases r3)
            case (Inl err)
            then have "docs s3 = docs s" using three d2 save_Inl by metis
            then show ?thesis
              using True one Inr None two found2 none2 three Inl thrown [of err s3]
              by (simp add: register_def)
          next
            case (Inr d)
            then show ?thesis
              using True one \<open>r1 = Inr found\<close> None two found2 none2 three d2 saved [of s2 d s3]
              by (simp add: register_def)
          qed
        qed
      qed
    qed
  qed
qed

lemma register_store_inv: "store_inv s \<Longrightarrow> store_inv (snd (register R e body s))"
proof (cases rule: register_cases [of body R e s])
  case (saved d s2 s3)
  assume inv: "store_inv s"
  have "store_inv s2"
    using inv saved(2) by (simp add: store_inv_def)
  then have "store_inv (snd (resume R e (AwaitSave body) s2))"
    by (rule resume_store_inv)
  then show ?thesis using saved by simp
qed (simp_all add: store_inv_def)

lemma field_other: "k \<noteq> key \<Longrightarrow> field (body(k \<mapsto> v)) key = field body key"
  by (simp add: field_def)

lemma handler_ignores_registrationDate:
  "all_present (body(''registrationDate'' \<mapsto> v)) = all_present body"
  "submitted (body(''registrationDate'' \<mapsto> v)) = submitted body"
  "field (body(''registrationDate'' \<mapsto> v)) ''email'' = field body ''email''"
  "field (body(''registrationDate'' \<mapsto> v)) ''employeeId'' = field body ''employeeId''"
  by (simp_all add: all_present_def submitted_def field_other)

lemma new_Employee_registrationDate:
  "registrationDate (fst (new_Employee R e (submitted body))) = Some (now e)"
  by (simp add: new_Employee_def submitted_def field_def cast_value_def Let_def)

subsection \<open>Fields of white space\<close>

lemma trim_blank:
  assumes "\<forall>c \<in> set w. is_space c"
  shows "trim w = []"
proof -
  have d: "dropWhile is_space w = []"
    using assms by (induction w) simp_all
  show ?thesis
    unfolding trim_def d by simp
qed

lemma email_setters_blank:
  assumes "\<forall>c \<in> set w. is_space c"
  shows "email_setters w = []"
proof -
  have "\<forall>c \<in> set (toLowerCase w). is_space c"
    using assms by (simp add: toLowerCase_def is_space_lower_char)
  then show ?thesis
    unfolding email_setters_def by (rule trim_blank)
qed

lemma field_submitted:
  "field (submitted body) ''fullName'' = field body ''fullName''"
  "field (submitted body) ''email'' = field body ''email''"
  "field (submitted body) ''employeeId'' = field body ''employeeId''"
  "field (submitted body) ''department'' = field body ''department''"
  "field (submitted body) ''position'' = field body ''position''"
  "field (submitted body) ''dateOfJoining'' = field body ''dateOfJoining''"
  "field (submitted body) ''registrationDate'' = JUndefined"
  by (simp_all add: submitted_def field_def)

lemma casts_new_Employee:
  "snd (new_Employee R e (submitted body))
     = cast_errors ''dateOfJoining'' (cast_date R ''dateOfJoining'' (field body ''dateOfJoining''))"
  by (simp add: new_Employee_def Let_def field_submitted cast_errors_def)

lemma map_of_cast_errors: "path \<noteq> p \<Longrightarrow> map_of (cast_errors p c) path = None"
  by (simp add: cast_errors_def split: sum.splits)

lemma string_path_error_blank: "string_path_error required match (Some []) = Some required"
  by (simp add: string_path_error_def)

lemma blank_text_path:
  assumes "\<forall>c \<in> set w. is_space c" and "path \<noteq> ''dateOfJoining''"
  shows "path_errors (snd (new_Employee R e (submitted body))) path
           (string_path_error required match (cast_string trim (JStr w))) = [(path, required)]"
    and "path_errors (snd (new_Employee R e (submitted body))) path
           (string_path_error required match (cast_string email_setters (JStr w)))
         = [(path, required)]"
proof -
  have none: "map_of (snd (new_Employee R e (submitted body))) path = None"
    unfolding casts_new_Employee using assms(2) by (rule map_of_cast_errors)
  have a: "cast_string trim (JStr w) = Some []"
    using trim_blank [OF assms(1)] by simp
  have b: "cast_string email_setters (JStr w) = Some []"
    using email_setters_blank [OF assms(1)] by simp
  show "path_errors (snd (new_Employee R e (submitted body))) path
           (string_path_error required match (cast_string trim (JStr w))) = [(path, required)]"
    unfolding a string_path_error_blank path_errors_def none by simp
  show "path_errors (snd (new_Employee R e (submitted body))) path
           (string_path_error required match (cast_string email_setters (JStr w)))
         = [(path, required)]"
    unfolding b string_path_error_blank path_errors_def none by simp
qed

lemma validate_parts:
  "set (validate doc) =
     set (snd doc)
   \<union> set (path_errors (snd doc) ''fullName''
            (string_path_error (required_message ''fullName'') None (fullName (fst doc))))
   \<union> set (path_errors (snd doc) ''email''
            (string_path_error (required_message ''email'')
               (Some (email_pattern, ''Please enter a valid email address.'')) (email (fst doc))))
   \<union> set (path_errors (snd doc) ''employeeId''
            (string_path_error (required_message ''employeeId'') None (employeeId (fst doc))))
   \<union> set (path_errors (snd doc) ''department''
            (string_path_error (required_message ''department'') None (department (fst doc))))
   \<union> set (path_errors (snd doc) ''position''
            (string_path_error (required_message ''position'') None (position (fst doc))))
   \<union> set (path_errors (snd doc) ''dateOfJoining''
            (date_path_error (required_message ''dateOfJoining'') (dateOfJoining (fst doc))))"
  by (simp add: validate_def Let_def Un_assoc)

lemma new_Employee_paths:
  "fullName (fst (new_Employee R e (submitted body))) = cast_string trim (field body ''fullName'')"
  "email (fst (new_Employee R e (submitted body)))
     = cast_string email_setters (field body ''email'')"
  "employeeId (fst (new_Employee R e (submitted body)))
     = cast_string trim (field body ''employeeId'')"
  "department (fst (new_Employee R e (submitted body)))
     = cast_string trim (field body ''department'')"
  "position (fst (new_Employee R e (submitted body))) = cast_string trim (field body ''position'')"
  by (simp_all add: new_Employee_def Let_def field_submitted)

lemma blank_field_in_errors:
  assumes "key \<in> {''fullName'', ''email'', ''employeeId'', ''department'', ''position'',
                   ''dateOfJoining''}"
    and "field body key = JStr w" and "w \<noteq> []" and "\<forall>c \<in> set w. is_space c"
    and "key = ''dateOfJoining'' \<longrightarrow> castDate R w = None"
  shows "(key \<noteq> ''dateOfJoining'' \<longrightarrow>
            (key, required_message key) \<in> set (validate (new_Employee R e (submitted body))))
       \<and> (key = ''dateOfJoining'' \<longrightarrow>
            (key, castFailed R ''dateOfJoining'' w)
              \<in> set (validate (new_Employee R e (submitted body))))"
proof -
  let ?doc = "new_Employee R e (submitted body)"
  have "key = ''fullName'' \<or> key = ''email'' \<or> key = ''employeeId''
    \<or> key = ''department'' \<or> key = ''position'' \<or> key = ''dateOfJoining''"
    using assms(1) by (simp only: insert_iff empty_iff simp_thms)
  then show ?thesis
  proof (elim disjE)
    assume 1: "key = ''fullName''"
    have "(key, required_message key) \<in> set (validate ?doc)"
      unfolding validate_parts new_Employee_paths 1
      using assms(2) [unfolded 1] blank_text_path(1) [OF assms(4), of "''fullName''" R e body]
      by simp
    then show ?thesis using 1 by simp
  next
    assume 2: "key = ''email''"
    have "(key, required_message key) \<in> set (validate ?doc)"
      unfolding validate_parts new_Employee_paths 2
      using assms(2) [unfolded 2] blank_text_path(2) [OF assms(4), of "''email''" R e body]
      by simp
    then show ?thesis using 2 by simp
  next
    assume 3: "key = ''employeeId''"
    have "(key, required_message key) \<in> set (validate ?doc)"
      unfolding validate_parts new_Employee_paths 3
      using assms(2) [unfolded 3] blank_text_path(1) [OF assms(4), of "''employeeId''" R e body]
      by simp
    then show ?thesis using 3 by simp
  next
    assume 4: "key = ''department''"
    have "(key, required_message key) \<in> set (validate ?doc)"
      unfolding validate_parts new_Employee_paths 4
      using assms(2) [unfolded 4] blank_text_path(1) [OF assms(4), of "''department''" R e body]
      by simp
    then show ?thesis using 4 by simp
  next
    assume 5: "key = ''position''"
    have "(key, required_message key) \<in> set (validate ?doc)"
      unfolding validate_parts new_Employee_paths 5
      using assms(2) [unfolded 5] blank_text_path(1) [OF assms(4), of "''position''" R e body]
      by simp
    then show ?thesis using 5 by simp
  next
    assume 6: "key = ''dateOfJoining''"
    have c: "snd ?doc = [(''dateOfJoining'', castFailed R ''dateOfJoining'' w)]"
      using assms(2,3,5) 6 by (simp add: casts_new_Employee cast_errors_def)
    have "(''dateOfJoining'', castFailed R ''dateOfJoining'' w) \<in> set (validate ?doc)"
      unfolding validate_parts c by simp
    then show ?thesis using 6 by simp
  qed
qed

subsection \<open>C1: a uniqueness rejection at insert time\<close>

text \<open>
  C1 says that a submission which passes the presence check and both pre-checks, and
  whose insert the store then rejects for a duplicate email or employeeId, is answered
  like a duplicate found by a pre-check: 400 with a per-field error map. The handler
  does not do that. Two requests with the same body are interleaved so that both finish
  their pre-checks before either saves: both reach \<^verbatim>\<open>save\<close>, the first is registered,
  and the second, rejected by the unique index on email, is answered with status 500.
\<close>

theorem racing_duplicate_is_server_error:
  "map snd (fst (run example_runtime [Resume 0, Resume 0, Resume 1, Resume 1]
      (arrive [(\<lparr>now = 1730000000000, new_id = 1\<rparr>, jane),
               (\<lparr>now = 1730000000001, new_id = 2\<rparr>, jane)], empty_store)))
     = [AwaitSave jane, AwaitSave jane]
   \<and> map snd (fst (run example_runtime
        [Resume 0, Resume 0, Resume 1, Resume 1, Resume 0, Resume 1]
        (arrive [(\<lparr>now = 1730000000000, new_id = 1\<rparr>, jane),
                 (\<lparr>now = 1730000000001, new_id = 2\<rparr>, jane)], empty_store)))
     = [Responded (registered jane_doc), Responded server_error]
   \<and> status server_error = 500"
  by (simp add: example_simps handler_simps server_error_def)

subsection \<open>C2: uniqueness of email and employeeId\<close>

text \<open>
  C2: no two stored records share an email, compared without case after trimming, and no
  two share an employeeId after trimming, and every operation keeps it so. From a store
  whose documents are as the schema's setters leave them and obey the unique indexes,
  every run of the server (any requests in flight, resumed in any order, with outages of
  the store in between) and every run of the handler alone ends in such a store, in which
  no two records share a key.
\<close>

theorem uniqueness_preserved:
  assumes "store_inv s"
  shows "store_inv (snd (run R evs (ts, s)))
       \<and> no_shared_keys (docs (snd (run R evs (ts, s))))
       \<and> store_inv (snd (register R e body s))
       \<and> no_shared_keys (docs (snd (register R e body s)))"
proof -
  have a: "store_inv (snd (run R evs (ts, s)))"
    using run_store_inv [of "(ts, s)" R evs] assms by simp
  have b: "store_inv (snd (register R e body s))"
    using assms by (rule register_store_inv)
  show ?thesis
    using a b store_inv_no_shared_keys by blast
qed

text \<open>
  The theorem at three requests on the empty store: two with the same body racing each
  other, and a third with another email and employeeId. Two records are stored.
\<close>

theorem uniqueness_preserved_witness:
  "store_inv empty_store
   \<and> docs (snd (run example_runtime
        [Resume 0, Resume 0, Resume 1, Resume 1, Resume 2, Resume 0, Resume 1, Resume 2,
         Resume 2]
        (arrive [(\<lparr>now = 1730000000000, new_id = 1\<rparr>, jane),
                 (\<lparr>now = 1730000000001, new_id = 2\<rparr>, jane),
                 (\<lparr>now = 1730000000002, new_id = 3\<rparr>,
                  jane(''email'' \<mapsto> JStr ''John@X.com'', ''employeeId'' \<mapsto> JStr ''E2''))],
         empty_store)))
      = [jane_doc,
         jane_doc\<lparr>doc_id := 3, email := Some ''john@x.com'', employeeId := Some ''E2'',
                  registrationDate := Some 1730000000002\<rparr>]
   \<and> no_shared_keys (docs (snd (run example_runtime
        [Resume 0, Resume 0, Resume 1, Resume 1, Resume 2, Resume 0, Resume 1, Resume 2,
         Resume 2]
        (arrive [(\<lparr>now = 1730000000000, new_id = 1\<rparr>, jane),
                 (\<lparr>now = 1730000000001, new_id = 2\<rparr>, jane),
                 (\<lparr>now = 1730000000002, new_id = 3\<rparr>,
                  jane(''email'' \<mapsto> JStr ''John@X.com'', ''employeeId'' \<mapsto> JStr ''E2''))],
         empty_store))))"
proof -
  have inv: "store_inv empty_store"
    by (simp add: store_inv_def unique_indexes_def empty_store_def)
  have d: "docs (snd (run example_runtime
        [Resume 0, Resume 0, Resume 1, Resume 1, Resume 2, Resume 0, Resume 1, Resume 2,
         Resume 2]
        (arrive [(\<lparr>now = 1730000000000, new_id = 1\<rparr>, jane),
                 (\<lparr>now = 1730000000001, new_id = 2\<rparr>, jane),
                 (\<lparr>now = 1730000000002, new_id = 3\<rparr>,
                  jane(''email'' \<mapsto> JStr ''John@X.com'', ''employeeId'' \<mapsto> JStr ''E2''))],
         empty_store)))
      = [jane_doc,
         jane_doc\<lparr>doc_id := 3, email := Some ''john@x.com'', employeeId := Some ''E2'',
                  registrationDate := Some 1730000000002\<rparr>]"
    by (simp add: example_simps handler_simps)
  show ?thesis
    using inv d uniqueness_preserved [OF inv, where R = example_runtime
      and evs = "[Resume 0, Resume 0, Resume 1, Resume 1, Resume 2, Resume 0, Resume 1, Resume 2,
         Resume 2]"
      and ts = "arrive [(\<lparr>now = 1730000000000, new_id = 1\<rparr>, jane),
                 (\<lparr>now = 1730000000001, new_id = 2\<rparr>, jane),
                 (\<lparr>now = 1730000000002, new_id = 3\<rparr>,
                  jane(''email'' \<mapsto> JStr ''John@X.com'', ''employeeId'' \<mapsto> JStr ''E2''))]"]
    by simp
qed

subsection \<open>C3: a missing or empty field\<close>

text \<open>
  C3: for every submission in which one of the six fields is missing, \<^verbatim>\<open>null\<close> or the empty
  string, the handler responds 400 with the message \<^verbatim>\<open>All fields are required.\<close> and nothing
  else; the store is returned as it was, so no call reached it and no record was created,
  and the request ends before its first wait.
\<close>

theorem missing_field_rejected:
  assumes "key \<in> {''fullName'', ''email'', ''employeeId'', ''department'', ''position'',
                   ''dateOfJoining''}"
    and "field body key = JUndefined \<or> field body key = JNull \<or> field body key = JStr []"
  shows "register R e body s = (all_fields_required, s)
       \<and> start body = Responded all_fields_required
       \<and> status all_fields_required = 400
       \<and> payload all_fields_required
           = JsonObject [(''message'', JsonString ''All fields are required.'')]"
proof -
  from assms(2) have "\<not> truthy (field body key)"
    by (simp add: not_truthy_iff)
  with assms(1) have "\<not> all_present body"
    unfolding all_present_iff by blast
  then show ?thesis
    by (simp add: register_def start_def all_fields_required_def)
qed

text \<open>The theorem at scenario D, employeeId omitted, and at an empty position.\<close>

theorem missing_field_rejected_witness:
  "field (jane(''employeeId'' := None)) ''employeeId'' = JUndefined
   \<and> register example_runtime \<lparr>now = 1730000000001, new_id = 2\<rparr>
        (jane(''employeeId'' := None)) store_with_jane
      = (all_fields_required, store_with_jane)
   \<and> register example_runtime \<lparr>now = 1730000000001, new_id = 2\<rparr>
        (jane(''position'' \<mapsto> JStr [])) store_with_jane
      = (all_fields_required, store_with_jane)"
  using missing_field_rejected [where key = "''employeeId''"
      and body = "jane(''employeeId'' := None)" and R = example_runtime
      and e = "\<lparr>now = 1730000000001, new_id = 2\<rparr>" and s = store_with_jane]
    missing_field_rejected [where key = "''position''"
      and body = "jane(''position'' \<mapsto> JStr [])" and R = example_runtime
      and e = "\<lparr>now = 1730000000001, new_id = 2\<rparr>" and s = store_with_jane]
  by (simp add: example_simps field_def)

subsection \<open>C4: a duplicate email\<close>

text \<open>
  C4, as amended: for every submission that passes the presence check, while the store
  answers, whose email after the setters of the schema equals the stored email of a record,
  the handler looks the email up, responds 400 with the conflict message and an error map
  holding exactly the field email, makes no further store call and creates no record,
  whatever the submitted employeeId is.
\<close>

theorem duplicate_email_rejected:
  assumes "all_present body" and "failing s = None"
    and "d \<in> set (docs s)"
    and "email d = cast_string email_setters (field body ''email'')"
  shows "register R e body s
           = (email_in_use, s\<lparr>calls := calls s @ [FindOne ''email'' (email d)]\<rparr>)
       \<and> docs (snd (register R e body s)) = docs s
       \<and> status email_in_use = 400
       \<and> payload email_in_use
           = JsonObject
               [(''message'', JsonString ''An employee with this email already exists.''),
                (''errors'',
                 JsonObject
                   [(''email'', JsonObject [(''msg'', JsonString ''Email already in use.'')])])]"
proof -
  obtain x where "findOne_email (field body ''email'') s
      = (Inr (Some x), s\<lparr>calls := calls s @ [FindOne ''email'' (email d)]\<rparr>)"
    using findOne_email_found [OF assms(2,3,4)] by blast
  then have "register R e body s
      = (email_in_use, s\<lparr>calls := calls s @ [FindOne ''email'' (email d)]\<rparr>)"
    using assms(1) by (simp add: register_def)
  then show ?thesis
    by (simp add: email_in_use_def)
qed

text \<open>The theorem at a submission that differs from the stored email in case and blanks.\<close>

theorem duplicate_email_rejected_witness:
  "all_present (jane(''email'' \<mapsto> JStr ''  Jane@X.com '', ''employeeId'' \<mapsto> JStr ''E2''))
   \<and> failing store_with_jane = None
   \<and> jane_doc \<in> set (docs store_with_jane)
   \<and> email jane_doc
       = cast_string email_setters
           (field (jane(''email'' \<mapsto> JStr ''  Jane@X.com '', ''employeeId'' \<mapsto> JStr ''E2''))
              ''email'')
   \<and> register example_runtime \<lparr>now = 1730000000001, new_id = 2\<rparr>
        (jane(''email'' \<mapsto> JStr ''  Jane@X.com '', ''employeeId'' \<mapsto> JStr ''E2''))
        store_with_jane
      = (email_in_use,
         store_with_jane\<lparr>calls := [FindOne ''email'' (Some ''jane@x.com'')]\<rparr>)"
  using duplicate_email_rejected
    [where body = "jane(''email'' \<mapsto> JStr ''  Jane@X.com '', ''employeeId'' \<mapsto> JStr ''E2'')"
       and s = store_with_jane and d = jane_doc and R = example_runtime
       and e = "\<lparr>now = 1730000000001, new_id = 2\<rparr>"]
  by (simp add: example_simps handler_simps)

text \<open>
  C4 as stated covers every submission with a stored email. A submission with a stored
  email and no department gets the generic message of the presence check, and one sent
  while the store is down gets status 500.
\<close>

theorem duplicate_email_counterexample:
  "jane_doc \<in> set (docs store_with_jane)
   \<and> email jane_doc
       = cast_string email_setters
           (field (jane(''employeeId'' \<mapsto> JStr ''E2'', ''department'' := None)) ''email'')
   \<and> fst (register example_runtime \<lparr>now = 1730000000001, new_id = 2\<rparr>
        (jane(''employeeId'' \<mapsto> JStr ''E2'', ''department'' := None)) store_with_jane)
      = all_fields_required
   \<and> all_fields_required \<noteq> email_in_use
   \<and> fst (register example_runtime \<lparr>now = 1730000000001, new_id = 2\<rparr>
        (jane(''employeeId'' \<mapsto> JStr ''E2''))
        (store_with_jane\<lparr>failing := Some connection_refused\<rparr>))
      = server_error
   \<and> status server_error = 500"
  by (simp add: example_simps handler_simps register_def all_fields_required_def
      email_in_use_def server_error_def)

subsection \<open>C5: a duplicate employeeId\<close>

text \<open>
  C5, as amended: for every submission that passes the presence check, while the store
  answers, whose email matches no record and whose employeeId after trimming equals the
  stored employeeId of a record, the handler looks up the email first and the employeeId
  second, responds 400 with the conflict message and an error map holding exactly the
  field employeeId, and creates no record.
\<close>

theorem duplicate_employeeId_rejected:
  assumes "all_present body" and "failing s = None"
    and "\<forall>x \<in> set (docs s). email x \<noteq> cast_string email_setters (field body ''email'')"
    and "d \<in> set (docs s)"
    and "employeeId d = cast_string trim (field body ''employeeId'')"
  shows "register R e body s
           = (employeeId_in_use,
              s\<lparr>calls := calls s
                   @ [FindOne ''email'' (cast_string email_setters (field body ''email'')),
                      FindOne ''employeeId'' (employeeId d)]\<rparr>)
       \<and> docs (snd (register R e body s)) = docs s
       \<and> status employeeId_in_use = 400
       \<and> payload employeeId_in_use
           = JsonObject
               [(''message'', JsonString ''An employee with this Employee ID already exists.''),
                (''errors'',
                 JsonObject
                   [(''employeeId'',
                     JsonObject [(''msg'', JsonString ''Employee ID already in use.'')])])]"
proof -
  let ?s1 = "s\<lparr>calls := calls s
      @ [FindOne ''email'' (cast_string email_setters (field body ''email''))]\<rparr>"
  have one: "findOne_email (field body ''email'') s = (Inr None, ?s1)"
    by (rule findOne_email_none [OF assms(2,3)])
  have "failing ?s1 = None" and "d \<in> set (docs ?s1)"
    using assms(2,4) by simp_all
  then obtain x where two: "findOne_employeeId (field body ''employeeId'') ?s1
      = (Inr (Some x), ?s1\<lparr>calls := calls ?s1 @ [FindOne ''employeeId'' (employeeId d)]\<rparr>)"
    using findOne_employeeId_found [of ?s1 d "field body ''employeeId''"] assms(5) by auto
  have "register R e body s
      = (employeeId_in_use, ?s1\<lparr>calls := calls ?s1 @ [FindOne ''employeeId'' (employeeId d)]\<rparr>)"
    using assms(1) one two by (simp add: register_def)
  then show ?thesis
    by (simp add: employeeId_in_use_def)
qed

text \<open>The theorem at a new email with the employeeId of the stored record, padded with blanks.\<close>

theorem duplicate_employeeId_rejected_witness:
  "all_present (jane(''email'' \<mapsto> JStr ''john@x.com'', ''employeeId'' \<mapsto> JStr '' E1 ''))
   \<and> failing store_with_jane = None
   \<and> docs store_with_jane = [jane_doc]
   \<and> email jane_doc
       \<noteq> cast_string email_setters
           (field (jane(''email'' \<mapsto> JStr ''john@x.com'', ''employeeId'' \<mapsto> JStr '' E1 ''))
              ''email'')
   \<and> employeeId jane_doc
       = cast_string trim
           (field (jane(''email'' \<mapsto> JStr ''john@x.com'', ''employeeId'' \<mapsto> JStr '' E1 ''))
              ''employeeId'')
   \<and> register example_runtime \<lparr>now = 1730000000001, new_id = 2\<rparr>
        (jane(''email'' \<mapsto> JStr ''john@x.com'', ''employeeId'' \<mapsto> JStr '' E1 ''))
        store_with_jane
      = (employeeId_in_use,
         store_with_jane\<lparr>calls := [FindOne ''email'' (Some ''john@x.com''),
                                    FindOne ''employeeId'' (Some ''E1'')]\<rparr>)"
  using duplicate_employeeId_rejected
    [where body = "jane(''email'' \<mapsto> JStr ''john@x.com'', ''employeeId'' \<mapsto> JStr '' E1 '')"
       and s = store_with_jane and d = jane_doc and R = example_runtime
       and e = "\<lparr>now = 1730000000001, new_id = 2\<rparr>"]
  by (simp add: example_simps handler_simps)

text \<open>
  C5 as stated covers every submission with an unused email and a stored employeeId. One
  without a position gets the generic message of the presence check, and one sent while
  the store is down gets status 500.
\<close>

theorem duplicate_employeeId_counterexample:
  "docs store_with_jane = [jane_doc]
   \<and> email jane_doc
       \<noteq> cast_string email_setters
           (field (jane(''email'' \<mapsto> JStr ''john@x.com'', ''position'' := None)) ''email'')
   \<and> employeeId jane_doc
       = cast_string trim
           (field (jane(''email'' \<mapsto> JStr ''john@x.com'', ''position'' := None)) ''employeeId'')
   \<and> fst (register example_runtime \<lparr>now = 1730000000001, new_id = 2\<rparr>
        (jane(''email'' \<mapsto> JStr ''john@x.com'', ''position'' := None)) store_with_jane)
      = all_fields_required
   \<and> all_fields_required \<noteq> employeeId_in_use
   \<and> fst (register example_runtime \<lparr>now = 1730000000001, new_id = 2\<rparr>
        (jane(''email'' \<mapsto> JStr ''john@x.com''))
        (store_with_jane\<lparr>failing := Some connection_refused\<rparr>))
      = server_error
   \<and> status server_error = 500"
  by (simp add: example_simps handler_simps register_def all_fields_required_def
      employeeId_in_use_def server_error_def)

subsection \<open>C6: a rejection by the schema\<close>

text \<open>
  C6: for every submission that passes the presence check and both pre-checks and whose
  \<^verbatim>\<open>save\<close> is rejected with a ValidationError, the handler responds 400 with the message
  \<^verbatim>\<open>Validation failed. Please check your input.\<close> and an error map that has, for every path
  in the error, that path's message; no record is created.
\<close>

theorem schema_rejection_maps_every_field:
  assumes "all_present body"
    and "findOne_email (field body ''email'') s = (Inr None, s1)"
    and "findOne_employeeId (field body ''employeeId'') s1 = (Inr None, s2)"
    and "save (new_Employee R e (submitted body)) s2 = (Inl error, s3)"
    and "name error = ''ValidationError''"
  shows "register R e body s
           = (\<lparr>status = 400,
               payload = JsonObject
                 [(''message'', JsonString ''Validation failed. Please check your input.''),
                  (''errors'',
                   JsonObject
                     (map (\<lambda>(key, m). (key, JsonObject [(''msg'', JsonString m)]))
                        (errors error)))]\<rparr>,
              s3)
       \<and> docs s3 = docs s"
proof -
  have "register R e body s = (on_error error, s3)"
    using assms(1-4) by (simp add: register_def)
  moreover have "docs s3 = docs s"
    using assms(2-4) findOne_email_result findOne_employeeId_result save_Inl by metis
  ultimately show ?thesis
    using assms(5) by (simp add: on_error_def validation_failed_def)
qed

text \<open>
  The theorem at scenario C with a second rejected field: a malformed email and a
  department of blanks are both in the error map.
\<close>

theorem schema_rejection_maps_every_field_witness:
  "register example_runtime \<lparr>now = 1730000000000, new_id = 1\<rparr>
     (jane(''email'' \<mapsto> JStr ''not-an-email'', ''department'' \<mapsto> JStr ''  ''))
     empty_store
   = (\<lparr>status = 400,
       payload = JsonObject
         [(''message'', JsonString ''Validation failed. Please check your input.''),
          (''errors'',
           JsonObject
             [(''email'', JsonObject [(''msg'', JsonString ''Please enter a valid email address.'')]),
              (''department'', JsonObject [(''msg'', JsonString ''Department is required.'')])])]\<rparr>,
      empty_store\<lparr>calls := [FindOne ''email'' (Some ''not-an-email''),
                              FindOne ''employeeId'' (Some ''E1'')]\<rparr>)"
  using schema_rejection_maps_every_field
    [where body = "jane(''email'' \<mapsto> JStr ''not-an-email'', ''department'' \<mapsto> JStr ''  '')"
       and s = empty_store
       and ?s1.0 = "empty_store\<lparr>calls := [FindOne ''email'' (Some ''not-an-email'')]\<rparr>"
       and ?s2.0 = "empty_store\<lparr>calls := [FindOne ''email'' (Some ''not-an-email''),
                              FindOne ''employeeId'' (Some ''E1'')]\<rparr>"
       and ?s3.0 = "empty_store\<lparr>calls := [FindOne ''email'' (Some ''not-an-email''),
                              FindOne ''employeeId'' (Some ''E1'')]\<rparr>"
       and error = "ValidationError
                      [(''email'', ''Please enter a valid email address.''),
                       (''department'', ''Department is required.'')]"
       and R = example_runtime and e = "\<lparr>now = 1730000000000, new_id = 1\<rparr>"]
  by (simp add: example_simps handler_simps)

subsection \<open>C7: the success response\<close>

text \<open>
  C7: every response with status 201 carries the success message and an employee object
  with exactly the members id, fullName, email and employeeId of the record that was
  stored; department, position and the two dates are not in it.
\<close>

theorem success_response_projection:
  assumes "status (fst (register R e body s)) = 201"
  shows "\<exists>d fn em ei.
           fst (register R e body s)
             = \<lparr>status = 201,
                payload = JsonObject
                  [(''message'', JsonString ''Employee registered successfully!''),
                   (''employee'',
                    JsonObject
                      [(''id'', JsonObjectId (doc_id d)),
                       (''fullName'', JsonString fn),
                       (''email'', JsonString em),
                       (''employeeId'', JsonString ei)])]\<rparr>
           \<and> docs (snd (register R e body s)) = docs s @ [d]
           \<and> fullName d = Some fn \<and> email d = Some em \<and> employeeId d = Some ei"
proof (cases rule: register_cases [of body R e s])
  case missing
  then show ?thesis using assms by (simp add: all_fields_required_def)
next
  case (thrown err s')
  then show ?thesis using assms status_on_error [of err] by simp
next
  case (email_taken s')
  then show ?thesis using assms by (simp add: email_in_use_def)
next
  case (employeeId_taken s')
  then show ?thesis using assms by (simp add: employeeId_in_use_def)
next
  case (saved d s2 s3)
  have sv: "validate (new_Employee R e (submitted body)) = []"
    "d = fst (new_Employee R e (submitted body))" "docs s3 = docs s2 @ [d]"
    using save_Inr [OF saved(3)] by simp_all
  obtain fn em ei where f: "fullName d = Some fn" "email d = Some em" "employeeId d = Some ei"
    using validate_Nil [OF sv(1)] sv(2) by auto
  show ?thesis
    using saved(2,4) sv(3) f by (simp add: registered_def json_string_def)
qed

text \<open>The theorem at scenario A on the empty store.\<close>

theorem success_response_projection_witness:
  "status (fst (register example_runtime \<lparr>now = 1730000000000, new_id = 1\<rparr> jane empty_store))
     = 201
   \<and> payload (fst (register example_runtime \<lparr>now = 1730000000000, new_id = 1\<rparr> jane
        empty_store))
     = JsonObject
         [(''message'', JsonString ''Employee registered successfully!''),
          (''employee'',
           JsonObject
             [(''id'', JsonObjectId 1),
              (''fullName'', JsonString ''Jane Doe''),
              (''email'', JsonString ''jane@x.com''),
              (''employeeId'', JsonString ''E1'')])]
   \<and> docs (snd (register example_runtime \<lparr>now = 1730000000000, new_id = 1\<rparr> jane
        empty_store))
     = [jane_doc]"
  using success_response_projection
    [where R = example_runtime and e = "\<lparr>now = 1730000000000, new_id = 1\<rparr>"
       and body = jane and s = empty_store]
  by (simp add: example_simps handler_simps register_def registered_def json_string_def)

subsection \<open>C8: the registration date\<close>

text \<open>
  C8: a registrationDate in the request body has no effect, the handler answers and
  leaves the store exactly as without it; and the record of every successful
  registration has the server's clock reading at construction as its registrationDate.
\<close>

theorem registrationDate_is_server_time:
  "register R e (body(''registrationDate'' \<mapsto> v)) s = register R e body s
   \<and> (status (fst (register R e body s)) = 201 \<longrightarrow>
        (\<exists>d. docs (snd (register R e body s)) = docs s @ [d]
           \<and> registrationDate d = Some (now e)))"
proof -
  have same: "register R e (body(''registrationDate'' \<mapsto> v)) s = register R e body s"
    unfolding register_def handler_ignores_registrationDate by (rule refl)
  have "\<exists>d. docs (snd (register R e body s)) = docs s @ [d] \<and> registrationDate d = Some (now e)"
    if ok: "status (fst (register R e body s)) = 201"
  proof (cases rule: register_cases [of body R e s])
    case missing
    then show ?thesis using ok by (simp add: all_fields_required_def)
  next
    case (thrown err s')
    then show ?thesis using ok status_on_error [of err] by simp
  next
    case (email_taken s')
    then show ?thesis using ok by (simp add: email_in_use_def)
  next
    case (employeeId_taken s')
    then show ?thesis using ok by (simp add: employeeId_in_use_def)
  next
    case (saved d s2 s3)
    have sv: "d = fst (new_Employee R e (submitted body))" "docs s3 = docs s2 @ [d]"
      using save_Inr [OF saved(3)] by simp_all
    show ?thesis
      using saved(2,4) sv new_Employee_registrationDate [of R e body] by simp
  qed
  with same show ?thesis by blast
qed

text \<open>
  The theorem at scenario A with a registrationDate added by the client. The last line
  shows what the handler avoids: \<^verbatim>\<open>new Employee\<close> given that body itself would take the
  client's date.
\<close>

theorem registrationDate_is_server_time_witness:
  "register example_runtime \<lparr>now = 1730000000000, new_id = 1\<rparr>
     (jane(''registrationDate'' \<mapsto> JStr ''2024-01-01'')) empty_store
   = register example_runtime \<lparr>now = 1730000000000, new_id = 1\<rparr> jane empty_store
   \<and> status (fst (register example_runtime \<lparr>now = 1730000000000, new_id = 1\<rparr> jane
        empty_store)) = 201
   \<and> map registrationDate
       (docs (snd (register example_runtime \<lparr>now = 1730000000000, new_id = 1\<rparr>
          (jane(''registrationDate'' \<mapsto> JStr ''2024-01-01'')) empty_store)))
     = [Some 1730000000000]
   \<and> registrationDate
       (fst (new_Employee example_runtime \<lparr>now = 1730000000000, new_id = 1\<rparr>
          (jane(''registrationDate'' \<mapsto> JStr ''2024-01-01''))))
     = Some 1704067200000"
  using registrationDate_is_server_time
    [where R = example_runtime and e = "\<lparr>now = 1730000000000, new_id = 1\<rparr>"
       and body = jane and s = empty_store and v = "JStr ''2024-01-01''"]
  by (simp add: example_simps handler_simps register_def registered_def)

subsection \<open>C9: every other failure\<close>

text \<open>
  C9, as amended: for every request whose body the parsers accept, an error caught by the
  handler that is not named ValidationError is answered with status 500 and the generic
  message only; no response of the handler depends on the message or the stack of the
  error caught, also when the store raises it; a request that passes the presence check
  while the store raises such an error gets that response and creates no record; and
  every response with status 500 that the route sends for a parsed body is that
  response. The answer to a body that the parsers reject is not covered.
\<close>

theorem other_failures_are_generic_500:
  "(name error \<noteq> ''ValidationError'' \<longrightarrow>
      on_error error
        = \<lparr>status = 500,
           payload = JsonObject
             [(''message'',
               JsonString ''Server error during registration. Please try again later.'')]\<rparr>)
   \<and> on_error (error\<lparr>message := m, stack := t\<rparr>) = on_error error
   \<and> fst (register R e body (s\<lparr>failing := Some (error\<lparr>message := m, stack := t\<rparr>)\<rparr>))
       = fst (register R e body (s\<lparr>failing := Some error\<rparr>))
   \<and> (all_present body \<and> failing s = Some error \<and> name error \<noteq> ''ValidationError'' \<longrightarrow>
        fst (register R e body s) = server_error
        \<and> docs (snd (register R e body s)) = docs s)
   \<and> (status (fst (register R e body s)) = 500 \<longrightarrow>
        fst (register R e body s) = server_error)
   \<and> post_register D R e (Inr body) s
       = (\<lparr>code = status (fst (register R e body s)),
           sent = Json (payload (fst (register R e body s)))\<rparr>,
          snd (register R e body s))
   \<and> (code (fst (post_register D R e (Inr body) s)) = 500 \<longrightarrow>
        sent (fst (post_register D R e (Inr body) s))
          = Json (JsonObject
              [(''message'',
                JsonString ''Server error during registration. Please try again later.'')]))"
proof -
  have a: "name error \<noteq> ''ValidationError'' \<longrightarrow>
      on_error error
        = \<lparr>status = 500,
           payload = JsonObject
             [(''message'',
               JsonString ''Server error during registration. Please try again later.'')]\<rparr>"
    by (simp add: on_error_def server_error_def)
  have b: "on_error (error\<lparr>message := m, stack := t\<rparr>) = on_error error"
    by (simp add: on_error_def)
  have b': "fst (register R e body (s\<lparr>failing := Some (error\<lparr>message := m, stack := t\<rparr>)\<rparr>))
       = fst (register R e body (s\<lparr>failing := Some error\<rparr>))"
    by (simp add: register_def findOne_email_def Let_def on_error_def)
  have c: "fst (register R e body s) = server_error
           \<and> docs (snd (register R e body s)) = docs s"
    if "all_present body" "failing s = Some error" "name error \<noteq> ''ValidationError''"
    using that by (simp add: register_def findOne_email_def Let_def on_error_def)
  have d: "fst (register R e body s) = server_error"
    if five: "status (fst (register R e body s)) = 500"
  proof (cases rule: register_cases [of body R e s])
    case missing
    then show ?thesis using five by (simp add: all_fields_required_def)
  next
    case (thrown err s')
    then show ?thesis using five status_on_error_500 [of err] by simp
  next
    case (email_taken s')
    then show ?thesis using five by (simp add: email_in_use_def)
  next
    case (employeeId_taken s')
    then show ?thesis using five by (simp add: employeeId_in_use_def)
  next
    case (saved d s2 s3)
    then show ?thesis using five by (simp add: registered_def)
  qed
  have f: "post_register D R e (Inr body) s
       = (\<lparr>code = status (fst (register R e body s)),
           sent = Json (payload (fst (register R e body s)))\<rparr>,
          snd (register R e body s))"
    by (simp add: post_register_def split: prod.splits)
  have g: "sent (fst (post_register D R e (Inr body) s))
          = Json (JsonObject
              [(''message'',
                JsonString ''Server error during registration. Please try again later.'')])"
    if "code (fst (post_register D R e (Inr body) s)) = 500"
  proof -
    have "status (fst (register R e body s)) = 500"
      using that by (simp add: f)
    then have "fst (register R e body s) = server_error"
      by (rule d)
    then show ?thesis
      by (simp add: f server_error_def)
  qed
  from a b b' c d f g show ?thesis by blast
qed

text \<open>
  The theorem at a refused connection, whose message holds the address of the store.
\<close>

theorem other_failures_are_generic_500_witness:
  "name connection_refused \<noteq> ''ValidationError''
   \<and> all_present jane
   \<and> failing (store_with_jane\<lparr>failing := Some connection_refused\<rparr>) = Some connection_refused
   \<and> on_error connection_refused = server_error
   \<and> register example_runtime \<lparr>now = 1730000000001, new_id = 2\<rparr> jane
       (store_with_jane\<lparr>failing := Some connection_refused\<rparr>)
     = (\<lparr>status = 500,
         payload = JsonObject
           [(''message'',
             JsonString ''Server error during registration. Please try again later.'')]\<rparr>,
        store_with_jane\<lparr>failing := Some connection_refused,
                        calls := [FindOne ''email'' (Some ''jane@x.com'')]\<rparr>)
   \<and> post_register development example_runtime \<lparr>now = 1730000000001, new_id = 2\<rparr> (Inr jane)
       (store_with_jane\<lparr>failing := Some connection_refused\<rparr>)
     = (\<lparr>code = 500,
         sent = Json (JsonObject
           [(''message'',
             JsonString ''Server error during registration. Please try again later.'')])\<rparr>,
        store_with_jane\<lparr>failing := Some connection_refused,
                        calls := [FindOne ''email'' (Some ''jane@x.com'')]\<rparr>)"
  using other_failures_are_generic_500
    [where error = connection_refused and body = jane
       and s = "store_with_jane\<lparr>failing := Some connection_refused\<rparr>"
       and R = example_runtime and e = "\<lparr>now = 1730000000001, new_id = 2\<rparr>"
       and D = development]
  by (simp add: example_simps handler_simps register_def server_error_def)

text \<open>
  C9 as stated covers every client-visible response on every path. A body of malformed
  JSON is rejected by the parser of line 12 before the handler runs, and with \<^verbatim>\<open>NODE_ENV\<close>
  not set Express's default error handler answers 400 with the stack of the parser's
  error, which names the files of the server.
\<close>

theorem parser_failure_counterexample:
  "post_register development example_runtime \<lparr>now = 1730000000001, new_id = 2\<rparr>
     (Inl malformed_json) store_with_jane
   = (\<lparr>code = 400, sent = ErrorPage (stack (thrown malformed_json))\<rparr>, store_with_jane)
   \<and> stack (thrown malformed_json)
     = ''SyntaxError: Unexpected token } in JSON at position 1''
       @ '' at JSON.parse (<anonymous>)''
       @ '' at parse (/srv/app/node_modules/body-parser/lib/types/json.js:89:19)''
   \<and> production development = False"
  by (simp add: post_register_def default_error_handler_def development_def malformed_json_def)

subsection \<open>C10: a field of white space\<close>

text \<open>
  C10, as amended: for every submission that passes the presence check, in which one of
  the six fields is a non-empty string of white space only, while the store answers and
  neither pre-check finds a record, both lookups are made, and the handler responds 400
  with the message \<^verbatim>\<open>Validation failed. Please check your input.\<close> and the error map of
  the schema, which has an entry for that field: for the five text fields the message of
  its \<^verbatim>\<open>required\<close> rule, the value being empty once trimmed, and for dateOfJoining,
  where white space does not cast to a date, the message of the failed cast. The response
  is not the generic message of the presence check, and no record is created.
\<close>

theorem blank_field_fails_schema_validation:
  assumes "key \<in> {''fullName'', ''email'', ''employeeId'', ''department'', ''position'',
                   ''dateOfJoining''}"
    and "field body key = JStr w" and "w \<noteq> []" and "\<forall>c \<in> set w. is_space c"
    and "key = ''dateOfJoining'' \<longrightarrow> castDate R w = None"
    and "all_present body" and "failing s = None"
    and "\<forall>x \<in> set (docs s). email x \<noteq> cast_string email_setters (field body ''email'')"
    and "\<forall>x \<in> set (docs s). employeeId x \<noteq> cast_string trim (field body ''employeeId'')"
  shows "register R e body s
           = (\<lparr>status = 400,
               payload = JsonObject
                 [(''message'', JsonString ''Validation failed. Please check your input.''),
                  (''errors'',
                   JsonObject
                     (map (\<lambda>(key, m). (key, JsonObject [(''msg'', JsonString m)]))
                        (validate (new_Employee R e (submitted body)))))]\<rparr>,
              s\<lparr>calls := calls s
                   @ [FindOne ''email'' (cast_string email_setters (field body ''email'')),
                      FindOne ''employeeId'' (cast_string trim (field body ''employeeId''))]\<rparr>)
       \<and> key \<in> fst ` set (validate (new_Employee R e (submitted body)))
       \<and> (key \<noteq> ''dateOfJoining'' \<longrightarrow>
            (key, required_message key) \<in> set (validate (new_Employee R e (submitted body))))
       \<and> (key = ''dateOfJoining'' \<longrightarrow>
            (key, castFailed R ''dateOfJoining'' w)
              \<in> set (validate (new_Employee R e (submitted body))))
       \<and> fst (register R e body s) \<noteq> all_fields_required
       \<and> docs (snd (register R e body s)) = docs s"
proof -
  let ?doc = "new_Employee R e (submitted body)"
  let ?s1 = "s\<lparr>calls := calls s
      @ [FindOne ''email'' (cast_string email_setters (field body ''email''))]\<rparr>"
  let ?s2 = "s\<lparr>calls := calls s
      @ [FindOne ''email'' (cast_string email_setters (field body ''email'')),
         FindOne ''employeeId'' (cast_string trim (field body ''employeeId''))]\<rparr>"
  have one: "findOne_email (field body ''email'') s = (Inr None, ?s1)"
    by (rule findOne_email_none [OF assms(7,8)])
  have "failing ?s1 = None"
    and "\<forall>x \<in> set (docs ?s1). employeeId x \<noteq> cast_string trim (field body ''employeeId'')"
    using assms(7,9) by simp_all
  then have "findOne_employeeId (field body ''employeeId'') ?s1
      = (Inr None, ?s1\<lparr>calls := calls ?s1
           @ [FindOne ''employeeId'' (cast_string trim (field body ''employeeId''))]\<rparr>)"
    by (rule findOne_employeeId_none)
  then have two: "findOne_employeeId (field body ''employeeId'') ?s1 = (Inr None, ?s2)"
    by simp
  have errs: "(key \<noteq> ''dateOfJoining'' \<longrightarrow> (key, required_message key) \<in> set (validate ?doc))
       \<and> (key = ''dateOfJoining'' \<longrightarrow>
            (key, castFailed R ''dateOfJoining'' w) \<in> set (validate ?doc))"
    by (rule blank_field_in_errors [OF assms(1-5)])
  then have mem: "key \<in> fst ` set (validate ?doc)"
    by (cases "key = ''dateOfJoining''") force+
  then obtain err rest where ne: "validate ?doc = err # rest"
    by (cases "validate ?doc") auto
  have three: "save ?doc ?s2 = (Inl (ValidationError (validate ?doc)), ?s2)"
    by (simp add: save_def ne)
  have reg: "register R e body s = (on_error (ValidationError (validate ?doc)), ?s2)"
    using assms(6) one two three by (simp add: register_def)
  have resp: "on_error (ValidationError (validate ?doc)) = validation_failed (validate ?doc)"
    by (simp add: on_error_def ValidationError_def)
  have "validation_failed (validate ?doc) \<noteq> all_fields_required"
    by (simp add: validation_failed_def all_fields_required_def)
  then show ?thesis
    using reg resp errs mem by (simp add: validation_failed_def)
qed

text \<open>The theorem at scenario A with a fullName of three blanks.\<close>

theorem blank_field_fails_schema_validation_witness:
  "field (jane(''fullName'' \<mapsto> JStr ''   '')) ''fullName'' = JStr ''   ''
   \<and> all_present (jane(''fullName'' \<mapsto> JStr ''   ''))
   \<and> register example_runtime \<lparr>now = 1730000000000, new_id = 1\<rparr>
        (jane(''fullName'' \<mapsto> JStr ''   '')) empty_store
      = (\<lparr>status = 400,
          payload = JsonObject
            [(''message'', JsonString ''Validation failed. Please check your input.''),
             (''errors'',
              JsonObject
                [(''fullName'', JsonObject [(''msg'', JsonString ''Full name is required.'')])])]\<rparr>,
         empty_store\<lparr>calls := [FindOne ''email'' (Some ''jane@x.com''),
                                 FindOne ''employeeId'' (Some ''E1'')]\<rparr>)
   \<and> castDate example_runtime ''  '' = None
   \<and> validate (new_Employee example_runtime \<lparr>now = 1730000000000, new_id = 1\<rparr>
        (submitted (jane(''dateOfJoining'' \<mapsto> JStr ''  ''))))
      = [(''dateOfJoining'', castFailed example_runtime ''dateOfJoining'' ''  '')]
   \<and> status (fst (register example_runtime \<lparr>now = 1730000000000, new_id = 1\<rparr>
        (jane(''dateOfJoining'' \<mapsto> JStr ''  '')) empty_store))
      = 400"
  using blank_field_fails_schema_validation
    [where key = "''fullName''" and body = "jane(''fullName'' \<mapsto> JStr ''   '')"
       and w = "''   ''" and R = example_runtime
       and e = "\<lparr>now = 1730000000000, new_id = 1\<rparr>" and s = empty_store]
    blank_field_fails_schema_validation
    [where key = "''dateOfJoining''" and body = "jane(''dateOfJoining'' \<mapsto> JStr ''  '')"
       and w = "''  ''" and R = example_runtime
       and e = "\<lparr>now = 1730000000000, new_id = 1\<rparr>" and s = empty_store]
  by (simp add: example_simps handler_simps)

text \<open>
  C10 as stated covers every submission with a field of white space. With the department
  missing as well the presence check fails and the generic message is sent; with the
  email of a stored record the pre-check answers, not the schema; with the store down
  the response is 500; and a dateOfJoining of white space is not trimmed and does not fail
  its \<^verbatim>\<open>required\<close> rule: its entry in the error map is the failed cast.
\<close>

theorem blank_field_counterexample:
  "field (jane(''fullName'' \<mapsto> JStr ''   '', ''department'' := None)) ''fullName''
     = JStr ''   ''
   \<and> \<not> all_present (jane(''fullName'' \<mapsto> JStr ''   '', ''department'' := None))
   \<and> register example_runtime \<lparr>now = 1730000000001, new_id = 2\<rparr>
        (jane(''fullName'' \<mapsto> JStr ''   '', ''department'' := None)) empty_store
      = (all_fields_required, empty_store)
   \<and> fst (register example_runtime \<lparr>now = 1730000000001, new_id = 2\<rparr>
        (jane(''fullName'' \<mapsto> JStr ''   '')) store_with_jane)
      = email_in_use
   \<and> email_in_use \<noteq> validation_failed [(''fullName'', ''Full name is required.'')]
   \<and> fst (register example_runtime \<lparr>now = 1730000000001, new_id = 2\<rparr>
        (jane(''fullName'' \<mapsto> JStr ''   ''))
        (empty_store\<lparr>failing := Some connection_refused\<rparr>))
      = server_error
   \<and> status server_error = 500
   \<and> fst (register example_runtime \<lparr>now = 1730000000001, new_id = 2\<rparr>
        (jane(''dateOfJoining'' \<mapsto> JStr ''  '')) empty_store)
      = validation_failed
          [(''dateOfJoining'', castFailed example_runtime ''dateOfJoining'' ''  '')]
   \<and> castFailed example_runtime ''dateOfJoining'' ''  ''
      \<noteq> required_message ''dateOfJoining''"
  by (simp add: example_simps handler_simps register_def all_fields_required_def
      email_in_use_def server_error_def validation_failed_def)

end
